theory Spec2Isabelle
  imports Main
begin

section \<open>JavaScript string operations called by App.js\<close>

text \<open>
  A JavaScript string is a sequence of code units. The model keeps the code units below
  256 (one \<open>char\<close> each), which covers every literal of App.js. The functions below are
  the ECMAScript library functions the component calls, written out on \<open>char list\<close>.
\<close>

text \<open>The members of WhiteSpace and LineTerminator below 256: TAB, LF, VT, FF, CR, SP, NBSP.\<close>

definition is_ws :: "char \<Rightarrow> bool" where
  "is_ws c = (c \<in> set [CHR 0x09, CHR 0x0A, CHR 0x0B, CHR 0x0C, CHR 0x0D, CHR 0x20, CHR 0xA0])"

text \<open>\<open>String.prototype.trimStart\<close> and \<open>String.prototype.trim\<close>.\<close>

definition trimStart :: "string \<Rightarrow> string" where
  "trimStart s = dropWhile is_ws s"

definition trim :: "string \<Rightarrow> string" where
  "trim s = rev (dropWhile is_ws (rev (dropWhile is_ws s)))"

text \<open>\<open>String.prototype.toLowerCase\<close>: A-Z and the Latin-1 capitals (all but the
  multiplication sign at 215) move up by 32.\<close>

definition lower_char :: "char \<Rightarrow> char" where
  "lower_char c = (let n = (of_char c :: nat) in
     if (65 \<le> n \<and> n \<le> 90) \<or> (192 \<le> n \<and> n \<le> 222 \<and> n \<noteq> 215)
     then char_of (n + 32) else c)"

definition toLowerCase :: "string \<Rightarrow> string" where
  "toLowerCase s = map lower_char s"

text \<open>\<open>s.startsWith(p)\<close> and \<open>s.endsWith(p)\<close>.\<close>

definition startsWith :: "string \<Rightarrow> string \<Rightarrow> bool" where
  "startsWith s p = (take (length p) s = p)"

definition endsWith :: "string \<Rightarrow> string \<Rightarrow> bool" where
  "endsWith s p = (length p \<le> length s \<and> drop (length s - length p) s = p)"

text \<open>\<open>s.replace(pat, rep)\<close> with a string pattern: only the first occurrence of
  \<open>pat\<close>, scanning from the left, is replaced (\<open>rep\<close> has no \<open>$\<close> pattern in App.js).\<close>

fun replace :: "string \<Rightarrow> string \<Rightarrow> string \<Rightarrow> string" where
  "replace [] pat rep = (if pat = [] then rep else [])"
| "replace (c # cs) pat rep =
     (if startsWith (c # cs) pat then rep @ drop (length pat) (c # cs)
      else c # replace cs pat rep)"

text \<open>\<open>s.split(d)\<close> for a one-character separator: the pieces between the separators,
  empty pieces included; the empty string splits into one empty piece.\<close>

fun split :: "string \<Rightarrow> char \<Rightarrow> string list" where
  "split [] d = [[]]"
| "split (c # cs) d =
     (if c = d then [] # split cs d
      else (case split cs d of [] \<Rightarrow> [[c]] | w # ws \<Rightarrow> (c # w) # ws))"

subsection \<open>Number(string) and parseInt(string)\<close>

definition is_digit :: "char \<Rightarrow> bool" where
  "is_digit c = (let n = (of_char c :: nat) in 48 \<le> n \<and> n \<le> 57)"

definition is_hex_digit :: "char \<Rightarrow> bool" where
  "is_hex_digit c = (let n = (of_char c :: nat) in
     (48 \<le> n \<and> n \<le> 57) \<or> (65 \<le> n \<and> n \<le> 70) \<or> (97 \<le> n \<and> n \<le> 102))"

definition is_octal_digit :: "char \<Rightarrow> bool" where
  "is_octal_digit c = (let n = (of_char c :: nat) in 48 \<le> n \<and> n \<le> 55)"

definition is_binary_digit :: "char \<Rightarrow> bool" where
  "is_binary_digit c = (c = CHR ''0'' \<or> c = CHR ''1'')"

definition digits1 :: "(char \<Rightarrow> bool) \<Rightarrow> string \<Rightarrow> bool" where
  "digits1 p s = (s \<noteq> [] \<and> list_all p s)"

text \<open>SignedInteger of an ExponentPart.\<close>

fun signed_integer :: "string \<Rightarrow> bool" where
  "signed_integer [] = False"
| "signed_integer (c # cs) =
     (if c = CHR ''+'' \<or> c = CHR ''-'' then digits1 is_digit cs else digits1 is_digit (c # cs))"

text \<open>An optional ExponentPart: nothing, or \<open>e\<close>/\<open>E\<close> and a SignedInteger.\<close>

fun exponent_opt :: "string \<Rightarrow> bool" where
  "exponent_opt [] = True"
| "exponent_opt (c # cs) = ((c = CHR ''e'' \<or> c = CHR ''E'') \<and> signed_integer cs)"

text \<open>StrUnsignedDecimalLiteral: \<open>Infinity\<close>, \<open>digits . [digits] [exp]\<close>,
  \<open>. digits [exp]\<close> or \<open>digits [exp]\<close>.\<close>

definition str_unsigned_decimal :: "string \<Rightarrow> bool" where
  "str_unsigned_decimal s =
     (s = ''Infinity'' \<or>
      (let ds1 = takeWhile is_digit s; r1 = dropWhile is_digit s in
       case r1 of
         [] \<Rightarrow> ds1 \<noteq> []
       | c # r2 \<Rightarrow>
           if c = CHR ''.'' then
             (let ds2 = takeWhile is_digit r2; r3 = dropWhile is_digit r2 in
              (ds1 \<noteq> [] \<or> ds2 \<noteq> []) \<and> exponent_opt r3)
           else ds1 \<noteq> [] \<and> exponent_opt r1))"

text \<open>NonDecimalIntegerLiteral: \<open>0x\<close>, \<open>0o\<close>, \<open>0b\<close> (either case) and at least one digit.\<close>

fun non_decimal_integer :: "string \<Rightarrow> bool" where
  "non_decimal_integer (z # x # ds) =
     (z = CHR ''0'' \<and>
      (if x = CHR ''x'' \<or> x = CHR ''X'' then digits1 is_hex_digit ds
       else if x = CHR ''o'' \<or> x = CHR ''O'' then digits1 is_octal_digit ds
       else if x = CHR ''b'' \<or> x = CHR ''B'' then digits1 is_binary_digit ds
       else False))"
| "non_decimal_integer _ = False"

text \<open>StringNumericLiteral: whether \<open>Number(s)\<close> is a number. Blank strings convert to 0;
  a sign is allowed before a decimal literal only.\<close>

definition str_numeric :: "string \<Rightarrow> bool" where
  "str_numeric s =
     (let t = trim s in
      case t of
        [] \<Rightarrow> True
      | c # cs \<Rightarrow>
          non_decimal_integer t \<or>
          (if c = CHR ''+'' \<or> c = CHR ''-'' then str_unsigned_decimal cs
           else str_unsigned_decimal t))"

text \<open>The global \<open>isNaN\<close> applied to a string.\<close>

definition isNaN :: "string \<Rightarrow> bool" where
  "isNaN s = (\<not> str_numeric s)"

definition digit_value :: "char \<Rightarrow> int" where
  "digit_value c = (let n = (of_char c :: nat) in
     if 48 \<le> n \<and> n \<le> 57 then int n - 48
     else if 65 \<le> n \<and> n \<le> 70 then int n - 55
     else int n - 87)"

definition radix_value :: "int \<Rightarrow> string \<Rightarrow> int" where
  "radix_value r ds = foldl (\<lambda>acc c. acc * r + digit_value c) 0 ds"

text \<open>
  The Numbers that \<open>parseInt\<close> returns: NaN, a double whose value is an integer, or an
  infinity. (The sign of a zero is not kept: no comparison of App.js tells \<open>-0\<close> from 0.)
\<close>

datatype number = NaN | Finite int | PosInfinity | NegInfinity

text \<open>The number of binary digits of a positive integer.\<close>

function bit_length :: "int \<Rightarrow> nat" where
  "bit_length n = (if n \<le> 0 then 0 else Suc (bit_length (n div 2)))"
  by pat_completeness auto
termination
  by (relation "measure nat") auto

text \<open>
  The double nearest to a non-negative integer, ties to even: an integer of at most 53
  bits is kept; a longer one keeps its 53 leading bits, rounded on the bits cut off.
  \<open>None\<close> is the overflow to Infinity, from \<open>2 ^ 1024\<close> on.
\<close>

definition to_double :: "int \<Rightarrow> int option" where
  "to_double m =
     (if bit_length m \<le> 53 then Some m
      else
        (let e = bit_length m - 53;
             q = m div 2 ^ e;
             r = m mod 2 ^ e;
             h = 2 ^ (e - 1);
             q' = (if h < r \<or> (r = h \<and> odd q) then q + 1 else q);
             v = q' * 2 ^ e
         in if 2 ^ 1024 \<le> v then None else Some v))"

text \<open>
  \<open>parseInt(s)\<close> with no radix: leading white space is skipped, one sign is read, a
  \<open>0x\<close>/\<open>0X\<close> prefix selects radix 16, and the longest run of digits is read; without
  a digit the result is NaN, else the double nearest to the signed value of the digits.
  (Past 20 significant decimal digits the standard also lets an implementation read the
  later digits as 0; the model reads the digits as they are.)
\<close>

definition parseInt :: "string \<Rightarrow> number" where
  "parseInt s =
     (let t = trimStart s;
          negative = (t \<noteq> [] \<and> hd t = CHR ''-'');
          u = (if t \<noteq> [] \<and> (hd t = CHR ''+'' \<or> hd t = CHR ''-'') then tl t else t);
          hex = (startsWith u ''0x'' \<or> startsWith u ''0X'');
          v = (if hex then drop 2 u else u);
          z = takeWhile (if hex then is_hex_digit else is_digit) v
      in if z = [] then NaN
         else
           (case to_double (radix_value (if hex then 16 else 10) z) of
              None \<Rightarrow> if negative then NegInfinity else PosInfinity
            | Some d \<Rightarrow> Finite (if negative then - d else d)))"

text \<open>The comparisons \<open><= 0\<close> and \<open>> 0\<close> of App.js on a Number: both are false on NaN.\<close>

definition le_zero :: "number \<Rightarrow> bool" where
  "le_zero v =
     (case v of NaN \<Rightarrow> False | Finite n \<Rightarrow> n \<le> 0 | PosInfinity \<Rightarrow> False
      | NegInfinity \<Rightarrow> True)"

definition gt_zero :: "number \<Rightarrow> bool" where
  "gt_zero v =
     (case v of NaN \<Rightarrow> False | Finite n \<Rightarrow> 0 < n | PosInfinity \<Rightarrow> True
      | NegInfinity \<Rightarrow> False)"

section \<open>The state of the App component\<close>

text \<open>A selected file (its name and bytes) and the spreadsheet bytes the backend returns.\<close>

type_synonym blob = "nat list"

record pdf_file =
  name :: string
  content :: blob

text \<open>
  A sheet is kept as the rows \<open>XLSX.utils.sheet_to_json(sheet, {header: 1})\<close> gives for
  it: one array of cells per row, the header row first. A workbook has its sheet names
  in order and its sheets by name.
\<close>

type_synonym cell = string
type_synonym sheet = "cell list list"

record workbook =
  SheetNames :: "string list"
  Sheets :: "(string \<times> sheet) list"

record stats =
  totalRows :: nat
  totalColumns :: nat
  hasData :: bool

text \<open>The \<open>useState\<close> cells of \<open>App\<close>, lines 6-16 (\<open>notesText\<close> is the cell \<open>notes\<close>).\<close>

record app_state =
  pdfFile :: "pdf_file option"
  columns :: string
  notesText :: string
  isLoading :: bool
  downloadLink :: string
  previewData :: "cell list list"
  extractedBlob :: "blob option"
  originalFilename :: string
  extractionStats :: "stats option"
  error :: string
  samplePages :: string

definition init_state :: app_state where
  "init_state = \<lparr> pdfFile = None, columns = ''Species,Common Name,Location,Status'',
     notesText = [], isLoading = False, downloadLink = [], previewData = [],
     extractedBlob = None, originalFilename = [], extractionStats = None, error = [],
     samplePages = [] \<rparr>"

text \<open>The form data of one request to \<open>/extract\<close>; \<open>sample_pages\<close> is appended only
  in test mode.\<close>

record request =
  req_file :: "pdf_file option"
  req_columns :: "string list"
  req_extra_instructions :: string
  req_sample_pages :: "number option"

text \<open>
  How \<open>axios.post\<close> fails: an error that carries a response (status, status text and
  body), a request without a response, or only a message. A call ends with such an
  error (\<open>Inl\<close>) or with the response blob (\<open>Inr\<close>).
  An error body is a Blob whose \<open>text()\<close> gives a string or throws (\<open>None\<close>), or some
  other value whose \<open>error\<close> property, as text, is kept (empty when absent or falsy).
\<close>

datatype error_body = BlobBody "string option" | OtherBody string

datatype axios_error =
    ResponseError nat string error_body
  | NoResponse
  | SetupError string

text \<open>
  The collaborators outside the component: the backend behind \<open>axios.post\<close>,
  \<open>XLSX.read\<close> (\<open>None\<close> when it throws), \<open>JSON.parse\<close> on an error text with the
  \<open>error\<close> and \<open>message\<close> properties of the result as text (\<open>None\<close> when it throws,
  an empty string for an absent or falsy property), and \<open>URL.createObjectURL\<close>.
\<close>

record env =
  post_extract :: "request \<Rightarrow> axios_error + blob"
  xlsx_read :: "blob \<Rightarrow> workbook option"
  json_parse :: "string \<Rightarrow> (string \<times> string) option"
  createObjectURL :: "blob \<Rightarrow> string"

section \<open>The handlers\<close>

text \<open>\<open>handleFileChange\<close>, lines 21-31; \<open>None\<close> is a cleared selection.\<close>

definition handleFileChange :: "pdf_file option \<Rightarrow> app_state \<Rightarrow> app_state" where
  "handleFileChange file s =
     s\<lparr> pdfFile := file,
        originalFilename := (case file of None \<Rightarrow> [] | Some f \<Rightarrow> name f),
        error := [],
        downloadLink := [],
        previewData := [],
        extractedBlob := None,
        extractionStats := None \<rparr>"

text \<open>\<open>columns.split(',').map(c => c.trim()).filter(c => c)\<close>, lines 49 and 81.\<close>

definition columnList :: "string \<Rightarrow> string list" where
  "columnList cols = filter (\<lambda>c. c \<noteq> []) (map trim (split cols (CHR '','')))"

text \<open>\<open>validateInputs\<close>, lines 33-61: the verdict and the state with the error set.\<close>

definition validateInputs :: "app_state \<Rightarrow> bool \<times> app_state" where
  "validateInputs s =
     (case pdfFile s of
        None \<Rightarrow> (False, s\<lparr>error := ''Please select a PDF file''\<rparr>)
      | Some f \<Rightarrow>
          if \<not> endsWith (toLowerCase (name f)) ''.pdf''
          then (False, s\<lparr>error := ''Please select a valid PDF file''\<rparr>)
          else if trim (columns s) = []
          then (False, s\<lparr>error := ''Please specify at least one column''\<rparr>)
          else if length (columnList (columns s)) = 0
          then (False, s\<lparr>error := ''Please specify valid column names''\<rparr>)
          else if samplePages s \<noteq> [] \<and>
                  (isNaN (samplePages s) \<or> le_zero (parseInt (samplePages s)))
          then (False, s\<lparr>error := ''Sample pages must be a positive number''\<rparr>)
          else (True, s))"

text \<open>The form data built at lines 77-87.\<close>

definition buildRequest :: "app_state \<Rightarrow> request" where
  "buildRequest s =
     \<lparr> req_file = pdfFile s,
       req_columns = columnList (columns s),
       req_extra_instructions = notesText s,
       req_sample_pages =
         (if samplePages s \<noteq> [] \<and> \<not> isNaN (samplePages s) \<and> gt_zero (parseInt (samplePages s))
          then Some (parseInt (samplePages s)) else None) \<rparr>"

text \<open>\<open>workbook.Sheets[workbook.SheetNames[0]]\<close> through \<open>sheet_to_json\<close>, lines 126-127:
  a missing sheet gives no rows.\<close>

definition firstSheetRows :: "workbook \<Rightarrow> cell list list" where
  "firstSheetRows wb =
     (case SheetNames wb of
        [] \<Rightarrow> []
      | n # _ \<Rightarrow> (case map_of (Sheets wb) n of None \<Rightarrow> [] | Some sh \<Rightarrow> sh))"

text \<open>The statistics of lines 132-136.\<close>

definition calcStats :: "cell list list \<Rightarrow> stats" where
  "calcStats json =
     \<lparr> totalRows = (if length json > 0 then length json - 1 else 0),
       totalColumns = (if length json > 0 then length (json ! 0) else 0),
       hasData = (length json > 1) \<rparr>"

text \<open>Lines 114-145: the blob is stored, a link made, and the reader's \<open>onload\<close> parses
  the same blob for the preview and the statistics.\<close>

definition onResponse :: "env \<Rightarrow> blob \<Rightarrow> app_state \<Rightarrow> app_state" where
  "onResponse e b s =
     (let s1 = s\<lparr>extractedBlob := Some b, downloadLink := createObjectURL e b\<rparr> in
      case xlsx_read e b of
        None \<Rightarrow> s1\<lparr>error := ''Could not parse extracted data for preview''\<rparr>
      | Some wb \<Rightarrow>
          (let json = firstSheetRows wb in
           s1\<lparr>previewData := json, extractionStats := Some (calcStats json)\<rparr>))"

text \<open>Template literals print a status code in decimal.\<close>

fun decimal :: "nat \<Rightarrow> string" where
  "decimal n =
     (if n < 10 then [char_of (48 + n)] else decimal (n div 10) @ [char_of (48 + n mod 10)])"

definition BACKEND_URL :: string where
  "BACKEND_URL = ''https://aiextractorautomationpipeline.onrender.com''"

text \<open>The message the \<open>catch\<close> of lines 147-184 sets.\<close>

definition errorMessage :: "env \<Rightarrow> axios_error \<Rightarrow> string" where
  "errorMessage e err =
     (case err of
        ResponseError status statusText body \<Rightarrow>
          (case body of
             BlobBody None \<Rightarrow>
               ''Extraction failed: '' @ decimal status @ '' '' @ statusText
           | BlobBody (Some txt) \<Rightarrow>
               (case json_parse e txt of
                  None \<Rightarrow> ''Extraction failed: '' @ decimal status @ '' '' @ statusText
                | Some (er, msg) \<Rightarrow>
                    ''Extraction failed: '' @
                      (if er \<noteq> [] then er else if msg \<noteq> [] then msg else ''Unknown error''))
           | OtherBody er \<Rightarrow>
               ''Extraction failed: '' @
                 (if er \<noteq> [] then er
                  else if statusText \<noteq> [] then statusText else ''Server error''))
      | NoResponse \<Rightarrow>
          ''No response from server. Please check if the backend is running at '' @ BACKEND_URL
      | SetupError msg \<Rightarrow> ''Request failed: '' @ msg)"

text \<open>
  \<open>handleSubmit\<close>, lines 63-187, run to the end (the reader's \<open>onload\<close> included): the
  final state and the request that was sent, if one was.
\<close>

definition handleSubmit :: "env \<Rightarrow> app_state \<Rightarrow> app_state \<times> request option" where
  "handleSubmit e s =
     (case validateInputs s of
        (False, s1) \<Rightarrow> (s1, None)
      | (True, s1) \<Rightarrow>
          (let s2 = s1\<lparr> isLoading := True, downloadLink := [], previewData := [],
                       extractedBlob := None, extractionStats := None, error := [] \<rparr>;
               req = buildRequest s2;
               s3 = (case post_extract e req of
                       Inr b \<Rightarrow> onResponse e b s2
                     | Inl err \<Rightarrow> s2\<lparr>error := errorMessage e err\<rparr>)
           in (s3\<lparr>isLoading := False\<rparr>, Some req)))"

text \<open>
  The same handler in the two parts the \<open>await\<close> of line 100 cuts it into. Up to the
  \<open>await\<close> (lines 63-100): validation, the reset and the request. After it (lines
  111-186): the setters run on whatever the state is when the answer arrives, which is
  the state \<open>submitStart\<close> left only if no other handler ran in between.
\<close>

definition submitStart :: "app_state \<Rightarrow> app_state \<times> request option" where
  "submitStart s =
     (case validateInputs s of
        (False, s1) \<Rightarrow> (s1, None)
      | (True, s1) \<Rightarrow>
          (let s2 = s1\<lparr> isLoading := True, downloadLink := [], previewData := [],
                       extractedBlob := None, extractionStats := None, error := [] \<rparr>
           in (s2, Some (buildRequest s2))))"

definition submitFinish :: "env \<Rightarrow> axios_error + blob \<Rightarrow> app_state \<Rightarrow> app_state" where
  "submitFinish e answer s =
     (case answer of
        Inr b \<Rightarrow> onResponse e b s
      | Inl err \<Rightarrow> s\<lparr>error := errorMessage e err\<rparr>)\<lparr>isLoading := False\<rparr>"

text \<open>\<open>handleDownload\<close>, lines 189-200: the name and the content of the file saved, if
  a blob and a file name are there.\<close>

definition downloadName :: "string \<Rightarrow> string" where
  "downloadName fn = ''extracted_'' @ replace fn ''.pdf'' ''.xlsx''"

definition handleDownload :: "app_state \<Rightarrow> (string \<times> blob) option" where
  "handleDownload s =
     (case extractedBlob s of
        None \<Rightarrow> None
      | Some b \<Rightarrow>
          if originalFilename s \<noteq> [] then Some (downloadName (originalFilename s), b)
          else None)"

text \<open>\<open>handleDiscard\<close>, lines 202-210.\<close>

definition handleDiscard :: "app_state \<Rightarrow> app_state" where
  "handleDiscard s =
     s\<lparr> downloadLink := [], previewData := [], extractedBlob := None,
        extractionStats := None \<rparr>"

section \<open>What is rendered\<close>

text \<open>
  \<open>renderPreviewTable\<close>, lines 212-283: nothing without preview rows; else the first
  row of the first \<open>maxPreviewRows\<close> rows as the table head, the others as the body, and
  the count of rows left out when there are more.
\<close>

record preview_table =
  pv_header :: "cell list option"
  pv_body :: "cell list list"
  pv_more :: "nat option"

definition maxPreviewRows :: nat where
  "maxPreviewRows = 20"

definition renderPreviewTable :: "app_state \<Rightarrow> preview_table option" where
  "renderPreviewTable s =
     (if length (previewData s) = 0 then None
      else
        (let previewRows = take maxPreviewRows (previewData s) in
         Some \<lparr> pv_header = (if length previewRows > 0 then Some (previewRows ! 0) else None),
                pv_body = drop 1 previewRows,
                pv_more = (if length (previewData s) > maxPreviewRows
                           then Some (length (previewData s) - maxPreviewRows) else None) \<rparr>))"

text \<open>
  The parts of the page that depend on results (lines 393-490): the error box, the
  "Extraction Complete" panel with the statistics and the Download button, and the
  preview table.
\<close>

record view =
  shown_error :: "string option"
  shown_stats :: "stats option"
  shown_preview :: "preview_table option"

definition render :: "app_state \<Rightarrow> view" where
  "render s =
     \<lparr> shown_error = (if error s \<noteq> [] then Some (error s) else None),
       shown_stats = (if isLoading s then None else extractionStats s),
       shown_preview = renderPreviewTable s \<rparr>"

section \<open>The artifact the backend returns\<close>


section \<open>Reference functions and example inputs\<close>

text \<open>\<open>Array.prototype.join\<close> with a one-character separator: how a caller writes a list
  of entries into the column field.\<close>

fun join :: "string list \<Rightarrow> char \<Rightarrow> string" where
  "join [] d = []"
| "join [x] d = x"
| "join (x # y # zs) d = x @ d # join (y # zs) d"

definition ex_file :: pdf_file where
  "ex_file = \<lparr> name = ''survey.pdf'', content = [37, 80, 68, 70] \<rparr>"

definition ex_blob :: blob where
  "ex_blob = [80, 75, 3, 4]"

definition ex_rows :: "cell list list" where
  "ex_rows = [[''Species'', ''Location''], [''Rana pipiens'', ''Pond A''],
              [''Bufo bufo'', ''Pond B'']]"

definition ex_workbook :: workbook where
  "ex_workbook = \<lparr> SheetNames = [''Sheet1''], Sheets = [(''Sheet1'', ex_rows)] \<rparr>"

text \<open>A backend that answers every request with \<open>ex_blob\<close>, which reads as \<open>ex_workbook\<close>.\<close>

definition ex_env :: env where
  "ex_env = \<lparr> post_extract = (\<lambda>r. Inr ex_blob),
              xlsx_read = (\<lambda>b. if b = ex_blob then Some ex_workbook else None),
              json_parse = (\<lambda>t. None),
              createObjectURL = (\<lambda>b. ''blob:1'') \<rparr>"

text \<open>The caller has chosen \<open>survey.pdf\<close> and typed two column names.\<close>

definition ex_state :: app_state where
  "ex_state = handleFileChange (Some ex_file) (init_state\<lparr>columns := ''Species, Location''\<rparr>)"

text \<open>A second file, chosen while the request for \<open>ex_file\<close> is still under way.\<close>

definition ex_other_file :: pdf_file where
  "ex_other_file = \<lparr> name = ''other.pdf'', content = [37, 80, 68, 70, 45] \<rparr>"

definition ex_in_flight :: app_state where
  "ex_in_flight = handleFileChange (Some ex_other_file) (fst (submitStart ex_state))"

text \<open>A backend that cannot be reached.\<close>

definition ex_down_env :: env where
  "ex_down_env = ex_env\<lparr> post_extract := (\<lambda>r. Inl NoResponse) \<rparr>"

text \<open>After the example extraction has succeeded, the caller empties the column field
  (\<open>setColumns\<close>, line 335).\<close>

definition ex_stale_state :: app_state where
  "ex_stale_state = (fst (handleSubmit ex_env ex_state))\<lparr>columns := []\<rparr>"

text \<open>A backend whose sheet has a header and 24 data rows.\<close>

definition ex_long_workbook :: workbook where
  "ex_long_workbook =
     \<lparr> SheetNames = [''Sheet1''],
       Sheets = [(''Sheet1'', [''Species'', ''Location''] #
                               replicate 24 [''Rana pipiens'', ''Pond A''])] \<rparr>"

definition ex_long_env :: env where
  "ex_long_env = ex_env\<lparr> xlsx_read := (\<lambda>b. Some ex_long_workbook) \<rparr>"

section \<open>Facts about the string operations\<close>

lemma trim_empty_iff: "trim s = [] \<longleftrightarrow> (\<forall>c\<in>set s. is_ws c)"
proof
  assume "trim s = []"
  then have a: "\<forall>c\<in>set (dropWhile is_ws s). is_ws c"
    by (simp add: trim_def dropWhile_eq_Nil_conv)
  have "dropWhile is_ws s = []"
  proof (rule ccontr)
    assume n: "dropWhile is_ws s \<noteq> []"
    then have "\<not> is_ws (hd (dropWhile is_ws s))" by (rule hd_dropWhile)
    moreover have "hd (dropWhile is_ws s) \<in> set (dropWhile is_ws s)" using n by simp
    ultimately show False using a by blast
  qed
  then show "\<forall>c\<in>set s. is_ws c" by (simp add: dropWhile_eq_Nil_conv)
next
  assume "\<forall>c\<in>set s. is_ws c"
  then show "trim s = []" by (auto simp: trim_def dest: set_dropWhileD)
qed

lemma comma_not_ws: "\<not> is_ws (CHR '','')"
  by (simp add: is_ws_def)

lemma split_not_Nil: "split s d \<noteq> []"
  by (induction s) (auto split: list.splits)

lemma split_no_separator: "d \<notin> set s \<Longrightarrow> split s d = [s]"
  by (induction s) auto

lemma split_append_separator:
  "d \<notin> set x \<Longrightarrow> split (x @ d # r) d = x # split r d"
  by (induction x) (auto split: list.splits simp: split_not_Nil)

text \<open>\<open>split\<close> undoes \<open>join\<close> on entries without the separator, and \<open>join\<close> undoes
  \<open>split\<close> on every string.\<close>

lemma split_join:
  "es \<noteq> [] \<Longrightarrow> \<forall>e\<in>set es. d \<notin> set e \<Longrightarrow> split (join es d) d = es"
proof (induction es d rule: join.induct)
  case (1 d)
  then show ?case by simp
next
  case (2 x d)
  then show ?case by (simp add: split_no_separator)
next
  case (3 x y zs d)
  then show ?case by (simp add: split_append_separator)
qed

lemma join_split: "join (split s d) d = s"
proof (induction s)
  case Nil
  then show ?case by simp
next
  case (Cons c cs)
  show ?case
  proof (cases "split cs d")
    case Nil
    then show ?thesis using split_not_Nil [of cs d] by simp
  next
    case (Cons w ws)
    then show ?thesis using Cons.IH
      by (cases ws) auto
  qed
qed

lemma columnList_blank: "trim cols = [] \<Longrightarrow> columnList cols = []"
proof -
  assume t: "trim cols = []"
  then have "\<forall>c\<in>set cols. is_ws c" by (simp add: trim_empty_iff)
  then have "CHR '','' \<notin> set cols" using comma_not_ws by blast
  then have "split cols (CHR '','') = [cols]" by (rule split_no_separator)
  then show ?thesis using t by (simp add: columnList_def)
qed

lemma replace_at_start:
  "startsWith s pat \<Longrightarrow> replace s pat rep = rep @ drop (length pat) s"
  by (cases s) (auto simp: startsWith_def)

lemma replace_first_occurrence:
  "\<forall>i<length pre. \<not> startsWith (drop i (pre @ pat @ post)) pat \<Longrightarrow>
   replace (pre @ pat @ post) pat rep = pre @ rep @ post"
proof (induction pre)
  case Nil
  have "startsWith (pat @ post) pat" by (simp add: startsWith_def)
  then show ?case by (simp add: replace_at_start)
next
  case (Cons a pre)
  from Cons.prems have "\<not> startsWith (a # pre @ pat @ post) pat" by force
  moreover from Cons.prems
  have "\<forall>i<length pre. \<not> startsWith (drop i (pre @ pat @ post)) pat"
    by force
  ultimately show ?case using Cons.IH by simp
qed

lemma replace_absent:
  "\<forall>i\<le>length s. \<not> startsWith (drop i s) pat \<Longrightarrow> replace s pat rep = s"
proof (induction s)
  case Nil
  then show ?case by (auto simp: startsWith_def)
next
  case (Cons a s)
  from Cons.prems have "\<not> startsWith (a # s) pat" by force
  moreover from Cons.prems have "\<forall>i\<le>length s. \<not> startsWith (drop i s) pat" by force
  ultimately show ?case using Cons.IH by simp
qed

section \<open>What a submission does\<close>

text \<open>A submission that sends a request has passed validation; the request is built
  from the fields as they were, and the final state follows the answer.\<close>

lemma handleSubmit_sent:
  assumes "handleSubmit e s = (s', Some req)"
  shows "fst (validateInputs s) \<and> req = buildRequest s \<and>
         s' = (case post_extract e req of
                 Inr b \<Rightarrow>
                   onResponse e b
                     (s\<lparr> isLoading := True, downloadLink := [], previewData := [],
                         extractedBlob := None, extractionStats := None, error := [] \<rparr>)
               | Inl err \<Rightarrow>
                   s\<lparr> isLoading := True, downloadLink := [], previewData := [],
                      extractedBlob := None, extractionStats := None,
                      error := errorMessage e err \<rparr>)\<lparr>isLoading := False\<rparr>"
  using assms
  by (auto simp: handleSubmit_def validateInputs_def buildRequest_def Let_def
      split: option.splits if_splits sum.splits)

lemma handleSubmit_parsed:
  assumes "handleSubmit e s = (s', Some req)" and "post_extract e req = Inr b"
    and "xlsx_read e b = Some wb"
  shows "s' = s\<lparr> isLoading := False, downloadLink := createObjectURL e b,
                 previewData := firstSheetRows wb, extractedBlob := Some b,
                 extractionStats := Some (calcStats (firstSheetRows wb)), error := [] \<rparr>"
  using handleSubmit_sent [OF assms(1)] assms(2,3)
  by (simp add: onResponse_def Let_def)

text \<open>The example submission, evaluated.\<close>

lemma ex_submit:
  "handleSubmit ex_env ex_state =
     (ex_state\<lparr> isLoading := False, downloadLink := ''blob:1'', previewData := ex_rows,
                 extractedBlob := Some ex_blob,
                 extractionStats := Some \<lparr> totalRows = 2, totalColumns = 2, hasData = True \<rparr>,
                 error := [] \<rparr>, Some (buildRequest ex_state))"
  by code_simp

lemma ex_post: "post_extract ex_env r = Inr ex_blob"
  by (simp add: ex_env_def)

lemma ex_read: "xlsx_read ex_env ex_blob = Some ex_workbook"
  by (simp add: ex_env_def)

lemma ex_first_sheet: "firstSheetRows ex_workbook = ex_rows"
  by (simp add: firstSheetRows_def ex_workbook_def)

lemma handleSubmit_valid:
  "fst (validateInputs s) \<Longrightarrow> snd (handleSubmit e s) = Some (buildRequest s)"
  by (auto simp: handleSubmit_def validateInputs_def buildRequest_def Let_def
      split: option.splits if_splits)

lemma handleSubmit_invalid:
  "\<not> fst (validateInputs s) \<Longrightarrow> handleSubmit e s = (snd (validateInputs s), None)"
  by (cases "validateInputs s") (auto simp: handleSubmit_def)

lemma validate_fail_error:
  "\<not> fst (validateInputs s) \<Longrightarrow> error (snd (validateInputs s)) \<noteq> []"
  by (auto simp: validateInputs_def split: option.splits if_splits)

lemma validate_fail_frame: "\<exists>m. snd (validateInputs s) = s\<lparr>error := m\<rparr>"
  by (auto simp: validateInputs_def split: option.splits if_splits
      intro: exI [of _ "error s"])

lemma validate_pass_sample:
  "fst (validateInputs s) \<Longrightarrow>
   samplePages s = [] \<or> (\<not> isNaN (samplePages s) \<and> \<not> le_zero (parseInt (samplePages s)))"
  by (auto simp: validateInputs_def split: option.splits if_splits)

lemma validate_sample_fail:
  "samplePages s \<noteq> [] \<Longrightarrow> isNaN (samplePages s) \<or> le_zero (parseInt (samplePages s)) \<Longrightarrow>
   \<not> fst (validateInputs s)"
  by (auto simp: validateInputs_def split: option.splits if_splits)

lemma parseInt_Nil: "parseInt [] = NaN"
  by (simp add: parseInt_def trimStart_def startsWith_def)

lemma errorMessage_not_empty: "errorMessage e err \<noteq> []"
  by (auto simp: errorMessage_def split: axios_error.splits error_body.splits option.splits)

lemma pair_of_snd: "snd p = b \<Longrightarrow> p = (fst p, b)"
  by auto

text \<open>Integers up to \<open>2 ^ 53\<close> are doubles: on them \<open>parseInt\<close> loses nothing.\<close>

lemma bit_length_bound: "m < 2 ^ k \<Longrightarrow> bit_length m \<le> k"
proof (induction k arbitrary: m)
  case 0
  then show ?case by simp
next
  case (Suc k)
  show ?case
  proof (cases "m \<le> 0")
    case True
    then show ?thesis by simp
  next
    case False
    from Suc.prems have "m div 2 < 2 ^ k" by simp
    then have "bit_length (m div 2) \<le> k" by (rule Suc.IH)
    with False show ?thesis by simp
  qed
qed

lemma to_double_exact: "m \<le> 2 ^ 53 \<Longrightarrow> to_double m = Some m"
proof (cases "m = 2 ^ 53")
  case True
  have "to_double (2 ^ 53) = Some (2 ^ 53)" by code_simp
  with True show ?thesis by simp
next
  case False
  assume "m \<le> 2 ^ 53"
  with False have "m < 2 ^ 53" by simp
  then have "bit_length m \<le> 53" by (rule bit_length_bound)
  then show ?thesis by (simp add: to_double_def)
qed

text \<open>The handler run to the end is its two parts with nothing in between.\<close>

lemma handleSubmit_phases:
  "handleSubmit e s =
     (case submitStart s of
        (s1, None) \<Rightarrow> (s1, None)
      | (s2, Some req) \<Rightarrow> (submitFinish e (post_extract e req) s2, Some req))"
  by (cases "validateInputs s")
    (auto simp: handleSubmit_def submitStart_def submitFinish_def Let_def
      split: sum.splits bool.splits)

lemma ex_file_is_pdf: "endsWith (toLowerCase (name ex_file)) ''.pdf''"
  by code_simp

lemma ex_state_file: "pdfFile ex_state = Some ex_file"
  by (simp add: ex_state_def handleFileChange_def)

lemma ex_state_valid: "fst (validateInputs ex_state)"
  by code_simp

section \<open>Statistics\<close>

text \<open>
  Claim C1. For every extraction whose answer was parsed, the statistics stored have
  \<open>totalRows\<close> equal to the number of rows of the first sheet minus one (the header) when
  the sheet has rows and 0 when it has none, and \<open>hasData\<close> holds exactly when
  \<open>totalRows\<close> is positive.
\<close>

theorem stats_rows_and_hasData:
  assumes "handleSubmit e s = (s', Some req)" and "post_extract e req = Inr b"
    and "xlsx_read e b = Some wb"
  shows "\<exists>st. extractionStats s' = Some st \<and>
           totalRows st =
             (if firstSheetRows wb = [] then 0 else length (firstSheetRows wb) - 1) \<and>
           (hasData st \<longleftrightarrow> 0 < totalRows st)"
  using handleSubmit_parsed [OF assms]
  by (auto simp: calcStats_def)

theorem stats_rows_and_hasData_witness:
  "\<exists>st. extractionStats (fst (handleSubmit ex_env ex_state)) = Some st \<and>
     totalRows st = 2 \<and> hasData st"
  using stats_rows_and_hasData [OF _ ex_post ex_read, of ex_state
      "fst (handleSubmit ex_env ex_state)" "buildRequest ex_state"]
  by (simp add: ex_submit ex_first_sheet ex_rows_def)



section \<open>The column list\<close>

text \<open>
  Claim C3, as amended. For entries written into the column field with commas between
  them, the column list sent with the request is the entries, each trimmed, without the
  empty ones, in the order written. Nothing is collapsed: a name written twice is sent
  twice.
\<close>

theorem column_list_trimmed_in_order:
  assumes "es \<noteq> []" and "\<forall>x\<in>set es. CHR '','' \<notin> set x"
    and "snd (handleSubmit e (s\<lparr>columns := join es (CHR '','')\<rparr>)) = Some req"
  shows "req_columns req = filter (\<lambda>c. c \<noteq> []) (map trim es)"
proof -
  have "handleSubmit e (s\<lparr>columns := join es (CHR '','')\<rparr>) =
      (fst (handleSubmit e (s\<lparr>columns := join es (CHR '','')\<rparr>)), Some req)"
    using assms(3) by (rule pair_of_snd)
  then have "req = buildRequest (s\<lparr>columns := join es (CHR '','')\<rparr>)"
    using handleSubmit_sent by blast
  then have "req_columns req = columnList (join es (CHR '',''))"
    by (simp add: buildRequest_def)
  also have "\<dots> = filter (\<lambda>c. c \<noteq> []) (map trim es)"
    using assms(1,2) by (simp add: columnList_def split_join)
  finally show ?thesis .
qed

text \<open>
  Claim C3, witness: padded, empty and repeated entries.
\<close>

theorem column_list_trimmed_in_order_witness:
  "req_columns (buildRequest (ex_state\<lparr>columns := ''Species, Location ,,Species''\<rparr>)) =
     [''Species'', ''Location'', ''Species'']"
proof -
  have j: "join [''Species'', '' Location '', '''', ''Species''] (CHR '','') =
      ''Species, Location ,,Species''"
    by simp
  have n: "[''Species'', '' Location '', '''', ''Species''] \<noteq> []"
    by simp
  have c: "\<forall>x\<in>set [''Species'', '' Location '', '''', ''Species'']. CHR '','' \<notin> set x"
    by simp
  have h: "snd (handleSubmit ex_env
        (ex_state\<lparr>columns := join [''Species'', '' Location '', '''', ''Species''] (CHR '','')\<rparr>)) =
      Some (buildRequest (ex_state\<lparr>columns := ''Species, Location ,,Species''\<rparr>))"
    unfolding j by code_simp
  have t: "filter (\<lambda>c. c \<noteq> []) (map trim [''Species'', '' Location '', '''', ''Species'']) =
      [''Species'', ''Location'', ''Species'']"
    by code_simp
  from column_list_trimmed_in_order [OF n c h] t show ?thesis by simp
qed

text \<open>
  Claim C3 as stated fails: the list sent is not an ordered set, since a repeated name is
  sent as often as it was written.
\<close>

theorem column_list_duplicates_counterexample:
  "map_option req_columns (snd (handleSubmit ex_env (ex_state\<lparr>columns := ''Species,Species''\<rparr>))) =
     Some [''Species'', ''Species''] \<and>
   \<not> distinct [''Species'', ''Species'']"
  by code_simp

text \<open>
  Claim C4. Once a PDF file is selected, validation fails with one of the two column
  errors exactly when the column field, split at commas, each entry trimmed and the
  empty entries removed, gives the empty list; then the submission only sets that error
  and sends no request.
\<close>

theorem empty_schema_rejected:
  assumes "pdfFile s = Some f" and "endsWith (toLowerCase (name f)) ''.pdf''"
  shows "((fst (validateInputs s) = False \<and>
           error (snd (validateInputs s)) \<in>
             {''Please specify at least one column'', ''Please specify valid column names''})
          \<longleftrightarrow> columnList (columns s) = []) \<and>
         (columnList (columns s) = [] \<longrightarrow>
            handleSubmit e s =
              (s\<lparr>error := (if trim (columns s) = [] then ''Please specify at least one column''
                            else ''Please specify valid column names'')\<rparr>, None))"
  using assms columnList_blank [of "columns s"]
  by (auto simp: handleSubmit_def validateInputs_def Let_def)

text \<open>
  Claim C4, witness: a field of separators, a blank field, and the example field.
\<close>

theorem empty_schema_rejected_witness:
  "handleSubmit ex_env (ex_state\<lparr>columns := '' , ,''\<rparr>) =
     (ex_state\<lparr>columns := '' , ,'', error := ''Please specify valid column names''\<rparr>, None) \<and>
   handleSubmit ex_env (ex_state\<lparr>columns := ''  ''\<rparr>) =
     (ex_state\<lparr>columns := ''  '', error := ''Please specify at least one column''\<rparr>, None) \<and>
   columnList (columns ex_state) \<noteq> [] \<and> fst (validateInputs ex_state)"
proof -
  have f1: "pdfFile (ex_state\<lparr>columns := '' , ,''\<rparr>) = Some ex_file"
    and f2: "pdfFile (ex_state\<lparr>columns := ''  ''\<rparr>) = Some ex_file"
    by (simp_all add: ex_state_file)
  have c1: "columnList '' , ,'' = []" and t1: "trim '' , ,'' \<noteq> []"
    and c2: "columnList ''  '' = []" and t2: "trim ''  '' = []"
    and c3: "columnList (columns ex_state) \<noteq> []"
    by code_simp+
  from empty_schema_rejected [OF f1 ex_file_is_pdf, of ex_env]
    empty_schema_rejected [OF f2 ex_file_is_pdf, of ex_env]
    empty_schema_rejected [OF ex_state_file ex_file_is_pdf, of ex_env]
  show ?thesis by (simp add: c1 t1 c2 t2 c3 ex_state_valid)
qed

section \<open>The sample-page limit\<close>

text \<open>
  What the code does with a limit. A limit that was supplied and is not a number, or
  that \<open>parseInt\<close> reads as a Number at most 0, fails validation and no request is sent.
  When validation passes and \<open>parseInt\<close> reads a positive Number, the request carries
  that Number; in every other case that passes validation the request carries none.
\<close>

lemma sample_pages_validated:
  "(samplePages s \<noteq> [] \<and>
      (isNaN (samplePages s) \<or> parseInt (samplePages s) = NegInfinity \<or>
       (\<exists>n. parseInt (samplePages s) = Finite n \<and> n \<le> 0)) \<longrightarrow>
      fst (validateInputs s) = False \<and> snd (handleSubmit e s) = None \<and>
      error (fst (handleSubmit e s)) \<noteq> []) \<and>
   (fst (validateInputs s) \<and>
      (parseInt (samplePages s) = PosInfinity \<or>
       (\<exists>n. parseInt (samplePages s) = Finite n \<and> 0 < n)) \<longrightarrow>
      (\<exists>req. snd (handleSubmit e s) = Some req \<and>
         req_sample_pages req = Some (parseInt (samplePages s)))) \<and>
   (fst (validateInputs s) \<and>
      (samplePages s = [] \<or> parseInt (samplePages s) = NaN) \<longrightarrow>
      (\<exists>req. snd (handleSubmit e s) = Some req \<and> req_sample_pages req = None))"
proof (intro conjI impI)
  assume a: "samplePages s \<noteq> [] \<and>
      (isNaN (samplePages s) \<or> parseInt (samplePages s) = NegInfinity \<or>
       (\<exists>n. parseInt (samplePages s) = Finite n \<and> n \<le> 0))"
  then have "isNaN (samplePages s) \<or> le_zero (parseInt (samplePages s))"
    by (auto simp: le_zero_def)
  with a have f: "\<not> fst (validateInputs s)" by (simp add: validate_sample_fail)
  then show "fst (validateInputs s) = False" by simp
  from f show "snd (handleSubmit e s) = None" by (simp add: handleSubmit_invalid)
  from f show "error (fst (handleSubmit e s)) \<noteq> []"
    by (simp add: handleSubmit_invalid validate_fail_error)
next
  assume a: "fst (validateInputs s) \<and>
      (parseInt (samplePages s) = PosInfinity \<or>
       (\<exists>n. parseInt (samplePages s) = Finite n \<and> 0 < n))"
  then have g: "gt_zero (parseInt (samplePages s))" by (auto simp: gt_zero_def)
  then have ne: "samplePages s \<noteq> []" using parseInt_Nil by (auto simp: gt_zero_def)
  from g have "\<not> le_zero (parseInt (samplePages s))"
    by (auto simp: gt_zero_def le_zero_def split: number.splits)
  with a ne validate_pass_sample [of s] have "\<not> isNaN (samplePages s)" by auto
  with g ne have "req_sample_pages (buildRequest s) = Some (parseInt (samplePages s))"
    by (simp add: buildRequest_def)
  with a show "\<exists>req. snd (handleSubmit e s) = Some req \<and>
      req_sample_pages req = Some (parseInt (samplePages s))"
    by (simp add: handleSubmit_valid)
next
  assume a: "fst (validateInputs s) \<and>
      (samplePages s = [] \<or> parseInt (samplePages s) = NaN)"
  then have "req_sample_pages (buildRequest s) = None"
    by (auto simp: buildRequest_def gt_zero_def)
  with a show "\<exists>req. snd (handleSubmit e s) = Some req \<and> req_sample_pages req = None"
    by (simp add: handleSubmit_valid)
qed

text \<open>The limits \<open>abc\<close>, \<open>-2\<close>, \<open>3\<close> and none; a limit past \<open>2 ^ 53\<close> is sent as the
  double \<open>parseInt\<close> returns.\<close>

lemma sample_pages_examples:
  "snd (handleSubmit ex_env (ex_state\<lparr>samplePages := ''abc''\<rparr>)) = None \<and>
   snd (handleSubmit ex_env (ex_state\<lparr>samplePages := ''-2''\<rparr>)) = None \<and>
   map_option req_sample_pages (snd (handleSubmit ex_env (ex_state\<lparr>samplePages := ''3''\<rparr>))) =
     Some (Some (Finite 3)) \<and>
   map_option req_sample_pages
     (snd (handleSubmit ex_env (ex_state\<lparr>samplePages := ''9007199254740993''\<rparr>))) =
     Some (Some (Finite 9007199254740992)) \<and>
   map_option req_sample_pages (snd (handleSubmit ex_env ex_state)) = Some None"
  by code_simp


section \<open>The preview\<close>

text \<open>
  Claim C6. After an extraction whose answer was parsed, the preview rows are the rows
  read from the very blob that is stored and handed out by the download; there is no
  other payload. The table shows the first 20 rows of the first sheet: its header row
  and the first 19 data rows, with the count of the rows left out.
\<close>

theorem preview_from_downloaded_bytes:
  assumes "handleSubmit e s = (s', Some req)" and "post_extract e req = Inr b"
    and "xlsx_read e b = Some wb"
  shows "extractedBlob s' = Some b \<and>
         previewData s' = firstSheetRows wb \<and>
         (originalFilename s \<noteq> [] \<longrightarrow>
            handleDownload s' = Some (downloadName (originalFilename s), b)) \<and>
         renderPreviewTable s' =
           (case firstSheetRows wb of
              [] \<Rightarrow> None
            | h # rows \<Rightarrow>
                Some \<lparr> pv_header = Some h, pv_body = take 19 rows,
                       pv_more = (if 19 < length rows then Some (length rows - 19) else None) \<rparr>)"
  using handleSubmit_parsed [OF assms]
  by (auto simp: handleDownload_def renderPreviewTable_def maxPreviewRows_def Let_def
      split: list.splits)

text \<open>
  Claim C6, witness: a sheet of a header and 24 data rows shows 19 of them and "5 more".
\<close>

theorem preview_from_downloaded_bytes_witness:
  "extractedBlob (fst (handleSubmit ex_long_env ex_state)) = Some ex_blob \<and>
   handleDownload (fst (handleSubmit ex_long_env ex_state)) =
     Some (''extracted_survey.xlsx'', ex_blob) \<and>
   renderPreviewTable (fst (handleSubmit ex_long_env ex_state)) =
     Some \<lparr> pv_header = Some [''Species'', ''Location''],
            pv_body = replicate 19 [''Rana pipiens'', ''Pond A''],
            pv_more = Some 5 \<rparr>"
proof -
  have "snd (handleSubmit ex_long_env ex_state) = Some (buildRequest ex_state)"
    using ex_state_valid by (rule handleSubmit_valid)
  then have h: "handleSubmit ex_long_env ex_state =
      (fst (handleSubmit ex_long_env ex_state), Some (buildRequest ex_state))"
    by (rule pair_of_snd)
  have p: "post_extract ex_long_env (buildRequest ex_state) = Inr ex_blob"
    by (simp add: ex_long_env_def ex_env_def)
  have r: "xlsx_read ex_long_env ex_blob = Some ex_long_workbook"
    by (simp add: ex_long_env_def)
  have f: "firstSheetRows ex_long_workbook =
      [''Species'', ''Location''] # replicate 24 [''Rana pipiens'', ''Pond A'']"
    by (simp add: firstSheetRows_def ex_long_workbook_def)
  have o: "originalFilename ex_state = ''survey.pdf''"
    by (simp add: ex_state_def handleFileChange_def ex_file_def)
  have d: "downloadName ''survey.pdf'' = ''extracted_survey.xlsx''"
    by code_simp
  from preview_from_downloaded_bytes [OF h p r] show ?thesis
    by (simp add: f o d)
qed

section \<open>What the caller sees after a submission\<close>

lemma submission_valid_outcome:
  assumes v: "fst (validateInputs s)"
  shows "(\<exists>b wb. post_extract e (buildRequest s) = Inr b \<and> xlsx_read e b = Some wb \<and>
         extractedBlob (fst (handleSubmit e s)) = Some b \<and>
         previewData (fst (handleSubmit e s)) = firstSheetRows wb \<and>
         shown_stats (render (fst (handleSubmit e s))) = Some (calcStats (firstSheetRows wb)) \<and>
         shown_error (render (fst (handleSubmit e s))) = None) \<or>
      (shown_error (render (fst (handleSubmit e s))) \<noteq> None \<and>
       shown_stats (render (fst (handleSubmit e s))) = None \<and>
       shown_preview (render (fst (handleSubmit e s))) = None)"
proof -
  have "snd (handleSubmit e s) = Some (buildRequest s)"
    using v by (rule handleSubmit_valid)
  then have h: "handleSubmit e s = (fst (handleSubmit e s), Some (buildRequest s))"
    by (rule pair_of_snd)
  note sent = handleSubmit_sent [OF h]
  show ?thesis
  proof (cases "post_extract e (buildRequest s)")
    case (Inl err)
    then show ?thesis using sent
      by (simp add: render_def renderPreviewTable_def errorMessage_not_empty)
  next
    case (Inr b)
    show ?thesis
    proof (cases "xlsx_read e b")
      case None
      then show ?thesis using sent Inr
        by (simp add: render_def renderPreviewTable_def onResponse_def Let_def)
    next
      case (Some wb)
      then show ?thesis using handleSubmit_parsed [OF h Inr Some] Inr
        by (simp add: render_def)
    qed
  qed
qed

lemma submission_invalid_outcome:
  assumes v: "\<not> fst (validateInputs s)"
  shows "snd (handleSubmit e s) = None \<and>
      shown_error (render (fst (handleSubmit e s))) \<noteq> None \<and>
      shown_stats (render (fst (handleSubmit e s))) = shown_stats (render s) \<and>
      shown_preview (render (fst (handleSubmit e s))) = shown_preview (render s) \<and>
      extractedBlob (fst (handleSubmit e s)) = extractedBlob s"
proof -
  obtain m where m: "snd (validateInputs s) = s\<lparr>error := m\<rparr>"
    using validate_fail_frame by blast
  have ne: "error (snd (validateInputs s)) \<noteq> []" using v by (rule validate_fail_error)
  show ?thesis
    using ne m by (simp add: handleSubmit_invalid [OF v] render_def renderPreviewTable_def)
qed

text \<open>
  Claim C7, as amended. After a submission that passes validation, the caller sees
  either the artifact with its statistics (the stored blob, the rows read from it, the
  statistics of those rows) and no error, or one error message and neither statistics
  nor preview. A submission that validation rejects sends nothing, shows one error
  message and leaves the results that were on the page as they were.
\<close>

theorem submission_outcome:
  "(fst (validateInputs s) \<longrightarrow>
      (\<exists>b wb. post_extract e (buildRequest s) = Inr b \<and> xlsx_read e b = Some wb \<and>
         extractedBlob (fst (handleSubmit e s)) = Some b \<and>
         previewData (fst (handleSubmit e s)) = firstSheetRows wb \<and>
         shown_stats (render (fst (handleSubmit e s))) = Some (calcStats (firstSheetRows wb)) \<and>
         shown_error (render (fst (handleSubmit e s))) = None) \<or>
      (shown_error (render (fst (handleSubmit e s))) \<noteq> None \<and>
       shown_stats (render (fst (handleSubmit e s))) = None \<and>
       shown_preview (render (fst (handleSubmit e s))) = None)) \<and>
   (\<not> fst (validateInputs s) \<longrightarrow>
      snd (handleSubmit e s) = None \<and>
      shown_error (render (fst (handleSubmit e s))) \<noteq> None \<and>
      shown_stats (render (fst (handleSubmit e s))) = shown_stats (render s) \<and>
      shown_preview (render (fst (handleSubmit e s))) = shown_preview (render s) \<and>
      extractedBlob (fst (handleSubmit e s)) = extractedBlob s)"
  using submission_valid_outcome [of s e] submission_invalid_outcome [of s e]
  by blast

text \<open>
  Claim C7, witness: an extraction that succeeds, a backend that is down, and no file.
\<close>

theorem submission_outcome_witness:
  "shown_stats (render (fst (handleSubmit ex_env ex_state))) =
     Some \<lparr> totalRows = 2, totalColumns = 2, hasData = True \<rparr> \<and>
   shown_error (render (fst (handleSubmit ex_env ex_state))) = None \<and>
   shown_error (render (fst (handleSubmit ex_down_env ex_state))) \<noteq> None \<and>
   shown_stats (render (fst (handleSubmit ex_down_env ex_state))) = None \<and>
   shown_preview (render (fst (handleSubmit ex_down_env ex_state))) = None \<and>
   snd (handleSubmit ex_env init_state) = None \<and>
   shown_error (render (fst (handleSubmit ex_env init_state))) \<noteq> None"
proof -
  have d: "post_extract ex_down_env (buildRequest ex_state) = Inl NoResponse"
    by (simp add: ex_down_env_def)
  have i: "\<not> fst (validateInputs init_state)"
    by (simp add: validateInputs_def init_state_def)
  have c: "calcStats ex_rows = \<lparr> totalRows = 2, totalColumns = 2, hasData = True \<rparr>"
    by (simp add: calcStats_def ex_rows_def)
  have r: "shown_error (render (fst (handleSubmit ex_env ex_state))) = None"
    by (simp add: ex_submit render_def)
  from submission_outcome [of ex_state ex_env] ex_state_valid r
  have "\<exists>b wb. post_extract ex_env (buildRequest ex_state) = Inr b \<and>
      xlsx_read ex_env b = Some wb \<and>
      shown_stats (render (fst (handleSubmit ex_env ex_state))) =
        Some (calcStats (firstSheetRows wb))"
    by simp blast
  then obtain b wb where "post_extract ex_env (buildRequest ex_state) = Inr b"
    and "xlsx_read ex_env b = Some wb"
    and st: "shown_stats (render (fst (handleSubmit ex_env ex_state))) =
        Some (calcStats (firstSheetRows wb))"
    by blast
  then have "b = ex_blob" and "wb = ex_workbook"
    by (simp_all add: ex_post ex_read)
  with st have one: "shown_stats (render (fst (handleSubmit ex_env ex_state))) =
      Some \<lparr> totalRows = 2, totalColumns = 2, hasData = True \<rparr>"
    by (simp add: ex_first_sheet c)
  from submission_outcome [of ex_state ex_down_env] ex_state_valid d
  have two: "shown_error (render (fst (handleSubmit ex_down_env ex_state))) \<noteq> None \<and>
      shown_stats (render (fst (handleSubmit ex_down_env ex_state))) = None \<and>
      shown_preview (render (fst (handleSubmit ex_down_env ex_state))) = None"
    by simp
  from submission_outcome [of init_state ex_env] i
  have three: "snd (handleSubmit ex_env init_state) = None \<and>
      shown_error (render (fst (handleSubmit ex_env init_state))) \<noteq> None"
    by simp
  from one r two three show ?thesis by simp
qed

text \<open>
  Claim C7 as stated fails: after a successful extraction the caller empties the column
  field and submits again. Validation rejects the submission before the results are
  reset, so the error is shown together with the statistics and the Download button of
  the earlier extraction.
\<close>

theorem stale_results_counterexample:
  "shown_error (render (fst (handleSubmit ex_env ex_stale_state))) =
     Some ''Please specify at least one column'' \<and>
   shown_stats (render (fst (handleSubmit ex_env ex_stale_state))) =
     Some \<lparr> totalRows = 2, totalColumns = 2, hasData = True \<rparr> \<and>
   handleDownload (fst (handleSubmit ex_env ex_stale_state)) =
     Some (''extracted_survey.xlsx'', ex_blob)"
  by code_simp

section \<open>The selected file\<close>

text \<open>
  Claim C8. A request is sent only if a file is selected whose name, in lower case, ends
  with \<open>.pdf\<close>. In every other selection state validation fails, the submission only
  sets the error of that state, and no request is sent.
\<close>

theorem request_needs_pdf_file:
  "(snd (handleSubmit e s) \<noteq> None \<longrightarrow>
      (\<exists>f. pdfFile s = Some f \<and> endsWith (toLowerCase (name f)) ''.pdf'')) \<and>
   (\<not> (\<exists>f. pdfFile s = Some f \<and> endsWith (toLowerCase (name f)) ''.pdf'') \<longrightarrow>
      fst (validateInputs s) = False \<and>
      handleSubmit e s =
        (s\<lparr>error := (if pdfFile s = None then ''Please select a PDF file''
                      else ''Please select a valid PDF file'')\<rparr>, None))"
  by (auto simp: handleSubmit_def validateInputs_def Let_def split: option.splits if_splits)

text \<open>
  Claim C8, witness: the example file, no file, and a text file.
\<close>

theorem request_needs_pdf_file_witness:
  "snd (handleSubmit ex_env ex_state) \<noteq> None \<and>
   (\<exists>f. pdfFile ex_state = Some f \<and> endsWith (toLowerCase (name f)) ''.pdf'') \<and>
   handleSubmit ex_env init_state = (init_state\<lparr>error := ''Please select a PDF file''\<rparr>, None) \<and>
   handleSubmit ex_env (ex_state\<lparr>pdfFile := Some \<lparr>name = ''notes.txt'', content = []\<rparr>\<rparr>) =
     (ex_state\<lparr>pdfFile := Some \<lparr>name = ''notes.txt'', content = []\<rparr>,
                error := ''Please select a valid PDF file''\<rparr>, None)"
proof -
  have t: "\<not> endsWith (toLowerCase ''notes.txt'') ''.pdf''"
    by code_simp
  from request_needs_pdf_file [of ex_env ex_state] request_needs_pdf_file [of ex_env init_state]
    request_needs_pdf_file [of ex_env "ex_state\<lparr>pdfFile := Some \<lparr>name = ''notes.txt'', content = []\<rparr>\<rparr>"]
  show ?thesis
    by (simp add: ex_submit init_state_def t)
qed

section \<open>Choosing a file\<close>

text \<open>
  Every change of the file selection, to a new file or to none, resets the download
  link, the preview rows, the stored blob and the statistics and clears the error,
  whatever the state was: right after it nothing of an earlier extraction is rendered
  and nothing can be downloaded.
\<close>

lemma file_change_resets_results:
  "downloadLink (handleFileChange f s) = [] \<and>
   previewData (handleFileChange f s) = [] \<and>
   extractedBlob (handleFileChange f s) = None \<and>
   extractionStats (handleFileChange f s) = None \<and>
   error (handleFileChange f s) = [] \<and>
   pdfFile (handleFileChange f s) = f \<and>
   render (handleFileChange f s) =
     \<lparr> shown_error = None, shown_stats = None, shown_preview = None \<rparr> \<and>
   handleDownload (handleFileChange f s) = None"
  by (simp add: handleFileChange_def render_def renderPreviewTable_def handleDownload_def)

text \<open>
  Claim C9 fails on the code. The file input stays enabled while a request is under way
  (only the submit button is disabled, line 408). The caller submits \<open>survey.pdf\<close> and,
  before the answer is there, chooses \<open>other.pdf\<close>: the change resets the results, and
  then the answer to the request for \<open>survey.pdf\<close> arrives and lines 114-137 store it.
  The page shows the statistics and preview of \<open>survey.pdf\<close> under the newly chosen
  \<open>other.pdf\<close>, and the download saves them as \<open>extracted_other.xlsx\<close>.
\<close>

theorem file_change_during_request_shows_old_results:
  "snd (submitStart ex_state) = Some (buildRequest ex_state) \<and>
   req_file (buildRequest ex_state) = Some ex_file \<and>
   post_extract ex_env (buildRequest ex_state) = Inr ex_blob \<and>
   render ex_in_flight = \<lparr> shown_error = None, shown_stats = None, shown_preview = None \<rparr> \<and>
   pdfFile (submitFinish ex_env (Inr ex_blob) ex_in_flight) = Some ex_other_file \<and>
   shown_stats (render (submitFinish ex_env (Inr ex_blob) ex_in_flight)) =
     Some \<lparr> totalRows = 2, totalColumns = 2, hasData = True \<rparr> \<and>
   previewData (submitFinish ex_env (Inr ex_blob) ex_in_flight) = ex_rows \<and>
   handleDownload (submitFinish ex_env (Inr ex_blob) ex_in_flight) =
     Some (''extracted_other.xlsx'', ex_blob)"
  by code_simp

section \<open>The download name\<close>

text \<open>
  Claim C10. The file saved is named \<open>extracted_\<close> followed by the original file name in
  which the first occurrence of the lower-case \<open>.pdf\<close>, and only that one, is replaced by
  \<open>.xlsx\<close>; a name without such an occurrence is kept as it is. So some accepted name
  (one ending in \<open>.PDF\<close>) gives a download name that does not end in \<open>.xlsx\<close>.
\<close>

theorem download_name_first_pdf:
  "(\<forall>pre post. fn = pre @ ''.pdf'' @ post \<and>
        (\<forall>i<length pre. \<not> startsWith (drop i fn) ''.pdf'') \<longrightarrow>
      downloadName fn = ''extracted_'' @ pre @ ''.xlsx'' @ post) \<and>
   ((\<forall>i<length fn. \<not> startsWith (drop i fn) ''.pdf'') \<longrightarrow>
      downloadName fn = ''extracted_'' @ fn) \<and>
   (\<forall>s b. extractedBlob s = Some b \<and> originalFilename s = fn \<and> fn \<noteq> [] \<longrightarrow>
      handleDownload s = Some (downloadName fn, b)) \<and>
   (\<exists>g. endsWith (toLowerCase g) ''.pdf'' \<and> \<not> endsWith (downloadName g) ''.xlsx'')"
proof (intro conjI allI impI)
  fix pre post
  assume "fn = pre @ ''.pdf'' @ post \<and> (\<forall>i<length pre. \<not> startsWith (drop i fn) ''.pdf'')"
  then have eq: "fn = pre @ ''.pdf'' @ post"
    and first: "\<forall>i<length pre. \<not> startsWith (drop i (pre @ ''.pdf'' @ post)) ''.pdf''"
    by blast+
  have "replace (pre @ ''.pdf'' @ post) ''.pdf'' ''.xlsx'' = pre @ ''.xlsx'' @ post"
    using first by (rule replace_first_occurrence)
  then show "downloadName fn = ''extracted_'' @ pre @ ''.xlsx'' @ post"
    by (simp add: downloadName_def eq)
next
  assume a: "\<forall>i<length fn. \<not> startsWith (drop i fn) ''.pdf''"
  have "\<not> startsWith (drop (length fn) fn) ''.pdf''"
    by (simp add: startsWith_def)
  with a have "\<forall>i\<le>length fn. \<not> startsWith (drop i fn) ''.pdf''"
    by (auto simp: le_less)
  then show "downloadName fn = ''extracted_'' @ fn"
    by (simp add: downloadName_def replace_absent)
next
  fix s :: app_state and b
  assume "extractedBlob s = Some b \<and> originalFilename s = fn \<and> fn \<noteq> []"
  then show "handleDownload s = Some (downloadName fn, b)"
    by (simp add: handleDownload_def)
next
  have "endsWith (toLowerCase ''A.PDF'') ''.pdf'' \<and> \<not> endsWith (downloadName ''A.PDF'') ''.xlsx''"
    by code_simp
  then show "\<exists>g. endsWith (toLowerCase g) ''.pdf'' \<and> \<not> endsWith (downloadName g) ''.xlsx''"
    by blast
qed

text \<open>
  Claim C10, witness: \<open>a.pdf.pdf\<close>, \<open>A.PDF\<close> and the example extraction.
\<close>

theorem download_name_first_pdf_witness:
  "downloadName ''a.pdf.pdf'' = ''extracted_a.xlsx.pdf'' \<and>
   downloadName ''A.PDF'' = ''extracted_A.PDF'' \<and>
   endsWith (toLowerCase ''A.PDF'') ''.pdf'' \<and>
   handleDownload (fst (handleSubmit ex_env ex_state)) =
     Some (downloadName ''survey.pdf'', ex_blob)"
proof -
  have a1: "\<forall>i<length ''A.PDF''. \<not> startsWith (drop i ''A.PDF'') ''.pdf''"
    by (simp add: startsWith_def less_Suc_eq all_conj_distrib)
  have a3: "endsWith (toLowerCase ''A.PDF'') ''.pdf''"
    by code_simp
  have a4: "extractedBlob (fst (handleSubmit ex_env ex_state)) = Some ex_blob \<and>
      originalFilename (fst (handleSubmit ex_env ex_state)) = ''survey.pdf''"
    by code_simp
  note first = download_name_first_pdf [of "''a.pdf.pdf''", THEN conjunct1, rule_format,
      of "''a''" "''.pdf''"]
  have one: "downloadName ''a.pdf.pdf'' = ''extracted_'' @ ''a'' @ ''.xlsx'' @ ''.pdf''"
    by (rule first) (simp add: startsWith_def)
  note absent = download_name_first_pdf [of "''A.PDF''", THEN conjunct2, THEN conjunct1,
      THEN mp]
  have two: "downloadName ''A.PDF'' = ''extracted_'' @ ''A.PDF''"
    using a1 by (rule absent)
  note saved = download_name_first_pdf [of "''survey.pdf''", THEN conjunct2, THEN conjunct2,
      THEN conjunct1, rule_format, of "fst (handleSubmit ex_env ex_state)" ex_blob]
  have three: "handleDownload (fst (handleSubmit ex_env ex_state)) =
      Some (downloadName ''survey.pdf'', ex_blob)"
    by (rule saved) (simp add: a4)
  from one two three a3 show ?thesis by simp
qed

end
